theory Spec2Isabelle
  imports Main "HOL-Library.Word" "HOL-Library.AList"
begin

unbundle bit_operations_syntax

section \<open>The iterfun extension module (src/fun.c)\<close>

text \<open>
  The C file defines one function, \<^verbatim>\<open>hello_world\<close>, a method table
  \<^verbatim>\<open>module_functions\<close>, a module definition \<^verbatim>\<open>iterfun_module\<close> and the
  initialisation function \<^verbatim>\<open>PyInit_iterfun\<close>. Everything else it names comes from
  \<^verbatim>\<open>Python.h\<close>: the object types, \<^verbatim>\<open>Py_BuildValue\<close>, \<^verbatim>\<open>PyModule_Create\<close> and the
  \<^verbatim>\<open>METH_*\<close> flags. Those are modelled below after the CPython C API, as far as this
  file uses them, and are kept apart from the four definitions translated from the file.

  A pointer that may be \<^verbatim>\<open>NULL\<close> is an \<open>option\<close>. A C string (\<^verbatim>\<open>const char *\<close>) is a
  \<open>string\<close>: the bytes before the terminating zero. A function returning
  \<^verbatim>\<open>PyObject *\<close> returns \<open>None\<close> for \<^verbatim>\<open>NULL\<close>, which is how the C API reports a raised
  exception, together with the interpreter state holding the error indicator.
  Memory is unbounded in this model: an allocation never fails.
\<close>

subsection \<open>Objects and interpreter state\<close>

text \<open>The address of a C function of this file, as stored in a method table.\<close>

datatype PyCFunction = hello_world_ptr

record PyMethodDef =
  ml_name :: "string option"
  ml_meth :: "PyCFunction option"
  ml_flags :: "32 word"
  ml_doc :: "string option"

text \<open>
  \<^verbatim>\<open>struct PyModuleDef\<close>, with the members the file initialises after the
  \<^verbatim>\<open>PyModuleDef_HEAD_INIT\<close> header (the interpreter's own bookkeeping).
\<close>

record PyModuleDef =
  m_name :: string
  m_doc :: "string option"
  m_size :: int
  m_methods :: "PyMethodDef list option"

text \<open>
  A module object: its name, its docstring and its functions by attribute name, in
  insertion order. Each function remembers the method table entry it was made from.
\<close>

record PyModuleObject =
  md_name :: string
  md_doc :: "string option"
  md_dict :: "(string \<times> PyMethodDef) list"

text \<open>
  Python values. A \<^verbatim>\<open>str\<close> is its sequence of code points; \<^verbatim>\<open>str\<close>, \<^verbatim>\<open>int\<close> and
  \<^verbatim>\<open>tuple\<close> objects are immutable, so they are modelled by their value.
\<close>

datatype PyObject =
    Py_None
  | PyLong int
  | PyUnicode "nat list"
  | PyTuple "PyObject list"
  | PyModule PyModuleObject

datatype exc_type = SystemError | TypeError | ValueError | AttributeError | UnicodeDecodeError

type_synonym py_error = "exc_type \<times> string"

record interp =
  err_indicator :: "py_error option"

type_synonym 'a api = "interp \<Rightarrow> 'a option \<times> interp"

definition py_return :: "'a \<Rightarrow> 'a api" where
  "py_return v s = (Some v, s)"

definition py_raise :: "exc_type \<Rightarrow> string \<Rightarrow> 'a api" where
  "py_raise t msg s = (None, s\<lparr>err_indicator := Some (t, msg)\<rparr>)"

text \<open>The \<^verbatim>\<open>str\<close> object with the characters of an ASCII literal.\<close>

definition py_str :: "string \<Rightarrow> PyObject" where
  "py_str cs = PyUnicode (map of_char cs)"

subsection \<open>C API: building a value from a C string\<close>

text \<open>
  Strict UTF-8 decoding, as \<^verbatim>\<open>Py_BuildValue\<close> applies it to the argument of an \<^verbatim>\<open>s\<close>
  unit: one to four bytes per code point, no overlong forms, no surrogates, nothing
  above U+10FFFF. \<open>None\<close> is a decoding error.
\<close>

definition is_cont :: "nat \<Rightarrow> bool" where
  "is_cont c = (128 \<le> c \<and> c < 192)"

definition cont_bits :: "nat \<Rightarrow> nat" where
  "cont_bits c = c - 128"

fun utf8_decode :: "nat list \<Rightarrow> nat list option" where
  "utf8_decode [] = Some []"
| "utf8_decode (b # bs) =
     (if b < 128 then map_option ((#) b) (utf8_decode bs)
      else if 194 \<le> b \<and> b < 224 then
        (case bs of
           c1 # r \<Rightarrow>
             if is_cont c1
             then map_option ((#) ((b - 192) * 64 + cont_bits c1)) (utf8_decode r)
             else None
         | _ \<Rightarrow> None)
      else if 224 \<le> b \<and> b < 240 then
        (case bs of
           c1 # c2 # r \<Rightarrow>
             if (if b = 224 then 160 else 128) \<le> c1 \<and> c1 < (if b = 237 then 160 else 192)
                \<and> is_cont c2
             then map_option
                    ((#) ((b - 224) * 4096 + cont_bits c1 * 64 + cont_bits c2))
                    (utf8_decode r)
             else None
         | _ \<Rightarrow> None)
      else if 240 \<le> b \<and> b < 245 then
        (case bs of
           c1 # c2 # c3 # r \<Rightarrow>
             if (if b = 240 then 144 else 128) \<le> c1 \<and> c1 < (if b = 244 then 144 else 192)
                \<and> is_cont c2 \<and> is_cont c3
             then map_option
                    ((#) ((b - 240) * 262144 + cont_bits c1 * 4096 + cont_bits c2 * 64
                          + cont_bits c3))
                    (utf8_decode r)
             else None
         | _ \<Rightarrow> None)
      else None)"

text \<open>
  \<^verbatim>\<open>Py_BuildValue(format, ...)\<close> for formats made of \<^verbatim>\<open>s\<close> units, each consuming one
  \<^verbatim>\<open>const char *\<close> argument: a \<^verbatim>\<open>NULL\<close> pointer gives \<^verbatim>\<open>None\<close>, a C string is decoded
  into a new \<^verbatim>\<open>str\<close>. Any other format character is refused with \<^verbatim>\<open>SystemError\<close>. C
  leaves a call with fewer arguments than units undefined; the model refuses it too.
\<close>

fun build_units :: "string \<Rightarrow> string option list \<Rightarrow> py_error + PyObject list" where
  "build_units [] _ = Inr []"
| "build_units (f # fs) [] = Inl (SystemError, ''Py_BuildValue: too few arguments'')"
| "build_units (f # fs) (a # as) =
     (if f = CHR ''s'' then
        (case (case a of
                 None \<Rightarrow> Inr Py_None
               | Some bytes \<Rightarrow>
                   (case utf8_decode (map of_char bytes) of
                      None \<Rightarrow> Inl (UnicodeDecodeError, ''invalid UTF-8 in C string'')
                    | Some cps \<Rightarrow> Inr (PyUnicode cps))) of
           Inl e \<Rightarrow> Inl e
         | Inr v \<Rightarrow>
             (case build_units fs as of
                Inl e \<Rightarrow> Inl e
              | Inr vs \<Rightarrow> Inr (v # vs)))
      else Inl (SystemError, ''bad format char passed to Py_BuildValue''))"

text \<open>No unit builds \<^verbatim>\<open>None\<close>, one unit builds that object, several build a tuple.\<close>

definition Py_BuildValue :: "string \<Rightarrow> string option list \<Rightarrow> PyObject api" where
  "Py_BuildValue format args =
     (case build_units format args of
        Inl (t, msg) \<Rightarrow> py_raise t msg
      | Inr [] \<Rightarrow> py_return Py_None
      | Inr [v] \<Rightarrow> py_return v
      | Inr vs \<Rightarrow> py_return (PyTuple vs))"

subsection \<open>The function of the module\<close>

text \<open>
  \<^verbatim>\<open>static PyObject* hello_world(PyObject *self, PyObject *args) {
      return Py_BuildValue("s", "hello, world!");
  }\<close>
\<close>

definition hello_world :: "PyObject option \<Rightarrow> PyObject option \<Rightarrow> PyObject api" where
  "hello_world self args = Py_BuildValue ''s'' [Some ''hello, world!'']"

text \<open>Calling through a function pointer.\<close>

fun call_ptr :: "PyCFunction \<Rightarrow> PyObject option \<Rightarrow> PyObject option \<Rightarrow> PyObject api" where
  "call_ptr hello_world_ptr = hello_world"

subsection \<open>The method table and the module definition\<close>

text \<open>The calling convention flags of \<^verbatim>\<open>methodobject.h\<close>.\<close>

definition METH_VARARGS :: "32 word" where "METH_VARARGS = 0x0001"
definition METH_KEYWORDS :: "32 word" where "METH_KEYWORDS = 0x0002"
definition METH_NOARGS :: "32 word" where "METH_NOARGS = 0x0004"
definition METH_O :: "32 word" where "METH_O = 0x0008"
definition METH_CLASS :: "32 word" where "METH_CLASS = 0x0010"
definition METH_STATIC :: "32 word" where "METH_STATIC = 0x0020"
definition METH_FASTCALL :: "32 word" where "METH_FASTCALL = 0x0080"
definition METH_METHOD :: "32 word" where "METH_METHOD = 0x0200"

text \<open>
  \<^verbatim>\<open>static PyMethodDef module_functions[] = {
      { "hello_world", hello_world, METH_VARARGS, "print hello world" },
      { NULL, NULL, 0, NULL } /* sentinel */
  };\<close>
\<close>

definition module_functions :: "PyMethodDef list" where
  "module_functions =
     [\<lparr>ml_name = Some ''hello_world'', ml_meth = Some hello_world_ptr,
       ml_flags = METH_VARARGS, ml_doc = Some ''print hello world''\<rparr>,
      \<lparr>ml_name = None, ml_meth = None, ml_flags = 0, ml_doc = None\<rparr>]"

text \<open>
  \<^verbatim>\<open>static struct PyModuleDef iterfun_module = {
      PyModuleDef_HEAD_INIT, "iterfun", NULL, -1, module_functions
  };\<close>
\<close>

definition iterfun_module :: PyModuleDef where
  "iterfun_module =
     \<lparr>m_name = ''iterfun'', m_doc = None, m_size = - 1, m_methods = Some module_functions\<rparr>"

subsection \<open>C API: creating a module\<close>

text \<open>
  The bits of the flags that select the calling convention. Of the conventions, the
  model has the three that take a C function of the type of \<^verbatim>\<open>hello_world\<close>
  (\<^verbatim>\<open>self\<close> and one object): \<^verbatim>\<open>METH_VARARGS\<close>, \<^verbatim>\<open>METH_NOARGS\<close> and \<^verbatim>\<open>METH_O\<close>. The
  keyword and fastcall conventions take a function of another type, which this file
  does not define; the model refuses them like any other combination of flags.
\<close>

definition call_flags :: "32 word" where
  "call_flags =
     METH_VARARGS OR METH_FASTCALL OR METH_NOARGS OR METH_O OR METH_KEYWORDS OR METH_METHOD"

definition convention :: "PyMethodDef \<Rightarrow> 32 word" where
  "convention d = ml_flags d AND call_flags"

text \<open>
  \<^verbatim>\<open>PyModule_AddFunctions\<close> walks the table up to the first entry whose name is
  \<^verbatim>\<open>NULL\<close>. For each entry before it, it refuses the class and static flags, makes
  a function object (which refuses flags that select no calling convention) and sets
  it as an attribute of the module under the entry's name. A table without the
  sentinel makes the C loop read past the array; the model reports it as an error.
\<close>

fun add_functions :: "PyMethodDef list \<Rightarrow> PyModuleObject \<Rightarrow> py_error + PyModuleObject" where
  "add_functions [] m = Inl (SystemError, ''method table without sentinel'')"
| "add_functions (d # ds) m =
     (case ml_name d of
        None \<Rightarrow> Inr m
      | Some name \<Rightarrow>
          if ml_flags d AND (METH_CLASS OR METH_STATIC) = 0 then
            if convention d = METH_VARARGS \<or> convention d = METH_NOARGS
               \<or> convention d = METH_O
            then add_functions ds (m\<lparr>md_dict := AList.update name d (md_dict m)\<rparr>)
            else Inl (SystemError, ''bad call flags'')
          else Inl (ValueError, ''module functions cannot set METH_CLASS or METH_STATIC''))"

text \<open>
  \<^verbatim>\<open>PyModule_Create\<close>: a new module object with the definition's name, the functions
  of its method table, if it has one, and its docstring. The member \<^verbatim>\<open>m_size\<close> only
  sizes the module's private memory, which is not part of the model.
\<close>

definition PyModule_Create :: "PyModuleDef \<Rightarrow> PyObject api" where
  "PyModule_Create def =
     (let m = \<lparr>md_name = m_name def, md_doc = None, md_dict = []\<rparr> in
      case (case m_methods def of
              None \<Rightarrow> Inr m
            | Some table \<Rightarrow> add_functions table m) of
        Inl (t, msg) \<Rightarrow> py_raise t msg
      | Inr m' \<Rightarrow> py_return (PyModule (m'\<lparr>md_doc := m_doc def\<rparr>)))"

text \<open>
  \<^verbatim>\<open>PyMODINIT_FUNC PyInit_iterfun(void) {
      return PyModule_Create(&iterfun_module);
  }\<close>
\<close>

definition PyInit_iterfun :: "PyObject api" where
  "PyInit_iterfun = PyModule_Create iterfun_module"

subsection \<open>The host calling a function of the module\<close>

text \<open>
  A call \<^verbatim>\<open>f(a1, ..., an, k1=v1, ...)\<close> of a function object made from a method
  table entry, with the module as \<^verbatim>\<open>self\<close>. None of the three conventions has
  \<^verbatim>\<open>METH_KEYWORDS\<close>, so the interpreter refuses keyword arguments before the C
  function runs. \<^verbatim>\<open>METH_VARARGS\<close> then passes the positional arguments as one tuple,
  whatever their number, and leaves any check of them to the C function; with
  \<^verbatim>\<open>METH_NOARGS\<close> and \<^verbatim>\<open>METH_O\<close> the interpreter checks their count itself.
\<close>

definition meth_name :: "PyMethodDef \<Rightarrow> string" where
  "meth_name d = (case ml_name d of None \<Rightarrow> [] | Some name \<Rightarrow> name)"

definition cfunction_call ::
  "PyMethodDef \<Rightarrow> PyObject \<Rightarrow> PyObject list \<Rightarrow> (string \<times> PyObject) list \<Rightarrow> PyObject api" where
  "cfunction_call d self args kwargs =
     (case ml_meth d of
        None \<Rightarrow> py_raise SystemError ''null function pointer''
      | Some f \<Rightarrow>
          if convention d = METH_VARARGS then
            (if kwargs = [] then call_ptr f (Some self) (Some (PyTuple args))
             else py_raise TypeError (meth_name d @ ''() takes no keyword arguments''))
          else if convention d = METH_NOARGS then
            (if kwargs = [] then
               (if args = [] then call_ptr f (Some self) None
                else py_raise TypeError (meth_name d @ ''() takes no arguments''))
             else py_raise TypeError (meth_name d @ ''() takes no keyword arguments''))
          else if convention d = METH_O then
            (if kwargs = [] then
               (case args of
                  [a] \<Rightarrow> call_ptr f (Some self) (Some a)
                | _ \<Rightarrow> py_raise TypeError (meth_name d @ ''() takes exactly one argument''))
             else py_raise TypeError (meth_name d @ ''() takes no keyword arguments''))
          else py_raise SystemError ''bad call flags'')"

text \<open>The function that a method table entry has set on a module under a name.\<close>

fun table_function :: "PyObject \<Rightarrow> string \<Rightarrow> PyMethodDef option" where
  "table_function (PyModule m) name = map_of (md_dict m) name"
| "table_function _ name = None"

text \<open>
  \<^verbatim>\<open>obj.name(a1, ..., an, k1=v1, ...)\<close>, for a name that a method table entry has
  set. Any other attribute is found, or not, by the interpreter's generic lookup in
  the object and its type (a module has \<^verbatim>\<open>__name__\<close>, \<^verbatim>\<open>__sizeof__\<close>,
  \<^verbatim>\<open>__getattribute__\<close> and more, none of them from this file). That lookup is not part
  of the model: the call is left unspecified there and nothing is proved about it.
\<close>

definition call_function ::
  "PyObject \<Rightarrow> string \<Rightarrow> PyObject list \<Rightarrow> (string \<times> PyObject) list \<Rightarrow> PyObject api" where
  "call_function obj name args kwargs =
     (case table_function obj name of
        None \<Rightarrow> undefined
      | Some d \<Rightarrow> cfunction_call d obj args kwargs)"

text \<open>
  \<^verbatim>\<open>import iterfun; iterfun.name(a1, ..., an, k1=v1, ...)\<close>: the host initialises
  the module and calls one of its functions by name.
\<close>

definition import_and_call_kw ::
  "string \<Rightarrow> PyObject list \<Rightarrow> (string \<times> PyObject) list \<Rightarrow> PyObject api" where
  "import_and_call_kw name args kwargs s =
     (case PyInit_iterfun s of
        (None, s') \<Rightarrow> (None, s')
      | (Some m, s') \<Rightarrow> call_function m name args kwargs s')"

text \<open>The same with positional arguments only: \<^verbatim>\<open>iterfun.name(a1, ..., an)\<close>.\<close>

definition import_and_call :: "string \<Rightarrow> PyObject list \<Rightarrow> PyObject api" where
  "import_and_call name args = import_and_call_kw name args []"

text \<open>The names of the functions a module object exposes.\<close>

fun function_names :: "PyObject \<Rightarrow> string list" where
  "function_names (PyModule m) = map fst (md_dict m)"
| "function_names _ = []"

subsection \<open>Sequences of calls\<close>

text \<open>
  Calls of \<^verbatim>\<open>hello_world\<close> one after the other, each with its own parameters, the
  interpreter state threaded through: the results in order and the final state.
\<close>

fun call_seq ::
  "(PyObject option \<times> PyObject option) list \<Rightarrow> interp \<Rightarrow> PyObject option list \<times> interp" where
  "call_seq [] s = ([], s)"
| "call_seq ((self, args) # cs) s =
     (case hello_world self args s of
        (r, s') \<Rightarrow> (case call_seq cs s' of (rs, s'') \<Rightarrow> (r # rs, s'')))"

section \<open>Properties\<close>

subsection \<open>Decoding and building\<close>

lemma utf8_decode_ascii:
  "list_all (\<lambda>b. b < 128) bs \<Longrightarrow> utf8_decode bs = Some bs"
  by (induction bs) simp_all

lemma of_char_hello_ascii:
  "list_all (\<lambda>b. b < 128) (map of_char ''hello, world!'' :: nat list)"
  by simp

lemma build_units_hello:
  "build_units ''s'' [Some ''hello, world!''] = Inr [py_str ''hello, world!'']"
  using utf8_decode_ascii [OF of_char_hello_ascii] by (simp add: py_str_def)

lemma hello_world_eq:
  "hello_world self args s = (Some (py_str ''hello, world!''), s)"
  unfolding hello_world_def Py_BuildValue_def build_units_hello
  by (simp add: py_return_def)

lemma PyInit_iterfun_eq:
  "PyInit_iterfun s =
     (Some (PyModule \<lparr>md_name = ''iterfun'', md_doc = None,
                      md_dict = [(''hello_world'',
                        \<lparr>ml_name = Some ''hello_world'', ml_meth = Some hello_world_ptr,
                         ml_flags = METH_VARARGS, ml_doc = Some ''print hello world''\<rparr>)]\<rparr>), s)"
  by (simp add: PyInit_iterfun_def PyModule_Create_def iterfun_module_def module_functions_def
      convention_def call_flags_def METH_VARARGS_def METH_KEYWORDS_def METH_NOARGS_def
      METH_O_def METH_CLASS_def METH_STATIC_def METH_FASTCALL_def METH_METHOD_def
      py_return_def)

lemma import_and_call_kw_eq:
  "import_and_call_kw ''hello_world'' args kwargs s =
     (if kwargs = [] then (Some (py_str ''hello, world!''), s)
      else (None, s\<lparr>err_indicator :=
                       Some (TypeError, ''hello_world() takes no keyword arguments'')\<rparr>))"
  by (simp add: import_and_call_kw_def PyInit_iterfun_eq call_function_def cfunction_call_def
      meth_name_def convention_def call_flags_def METH_VARARGS_def METH_KEYWORDS_def
      METH_NOARGS_def METH_O_def METH_FASTCALL_def METH_METHOD_def hello_world_eq py_raise_def)

lemma import_and_call_eq:
  "import_and_call ''hello_world'' args s = (Some (py_str ''hello, world!''), s)"
  by (simp add: import_and_call_def import_and_call_kw_eq)

lemma call_seq_eq:
  "call_seq cs s = (replicate (length cs) (Some (py_str ''hello, world!'')), s)"
  by (induction cs arbitrary: s) (auto simp: hello_world_eq)

subsection \<open>The claims\<close>

text \<open>
  C1. Every invocation of \<^verbatim>\<open>hello_world\<close>, whatever its parameters and whatever the
  interpreter state, returns exactly the string \<^verbatim>\<open>"hello, world!"\<close>; so does the
  host's call \<^verbatim>\<open>iterfun.hello_world()\<close>.
\<close>

theorem hello_world_returns_greeting:
  "fst (hello_world self args s) = Some (py_str ''hello, world!'')
   \<and> fst (import_and_call ''hello_world'' [] s) = Some (py_str ''hello, world!'')"
  by (simp add: hello_world_eq import_and_call_eq)

text \<open>
  C2, as stated: a call with one extra argument is answered by an error. It is not:
  at the argument \<^verbatim>\<open>1\<close> the call returns an object and leaves the error indicator
  clear.
\<close>

theorem extra_argument_not_rejected:
  "fst (import_and_call ''hello_world'' [PyLong 1] \<lparr>err_indicator = None\<rparr>) \<noteq> None
   \<and> err_indicator (snd (import_and_call ''hello_world'' [PyLong 1] \<lparr>err_indicator = None\<rparr>))
       = None"
  by (simp add: import_and_call_eq)

text \<open>
  C2, amended: the table entry is \<^verbatim>\<open>METH_VARARGS\<close> and the function never inspects
  its tuple, so a call with one extra argument, whatever it is, is accepted: it returns
  \<^verbatim>\<open>"hello, world!"\<close> and leaves the interpreter state as it was.
\<close>

theorem extra_argument_ignored:
  "import_and_call ''hello_world'' [x] s = (Some (py_str ''hello, world!''), s)"
  by (simp add: import_and_call_eq)

text \<open>
  C3. \<^verbatim>\<open>hello_world\<close> is deterministic and has no observable effect: any sequence of
  calls (of any length, 1000 included, with any parameters) returns the same string at
  every position and ends in the state it started from, and any two calls, from any two
  states, return the same result.
\<close>

theorem hello_world_repeatable:
  "call_seq cs s = (replicate (length cs) (Some (py_str ''hello, world!'')), s)
   \<and> call_seq (replicate 1000 (self, args)) s
       = (replicate 1000 (Some (py_str ''hello, world!'')), s)
   \<and> fst (hello_world self1 args1 s1) = fst (hello_world self2 args2 s2)"
  by (simp add: call_seq_eq hello_world_eq)

text \<open>
  C4, as stated: \<^verbatim>\<open>hello_world\<close> never gives an error result, however it is called.
  It does for a call with a keyword argument: \<^verbatim>\<open>iterfun.hello_world(x=1)\<close> returns
  \<^verbatim>\<open>NULL\<close> with \<^verbatim>\<open>TypeError\<close> set.
\<close>

theorem keyword_call_fails:
  "import_and_call_kw ''hello_world'' [] [(''x'', PyLong 1)] \<lparr>err_indicator = None\<rparr>
     = (None, \<lparr>err_indicator =
                 Some (TypeError, ''hello_world() takes no keyword arguments'')\<rparr>)"
  by (simp add: import_and_call_kw_eq)

text \<open>
  C4, amended: \<^verbatim>\<open>hello_world\<close> has no failure mode of its own. Every invocation of
  the C function returns an object, never \<^verbatim>\<open>NULL\<close>, and raises nothing (the error
  indicator is what it was before the call), and so does the host's call with any
  number of positional arguments. The entry is registered \<^verbatim>\<open>METH_VARARGS\<close> without
  \<^verbatim>\<open>METH_KEYWORDS\<close>, so a call with at least one keyword argument is refused by the
  interpreter with \<^verbatim>\<open>TypeError\<close> before the function is entered.
\<close>

theorem hello_world_positional_never_fails:
  "fst (hello_world self args s) \<noteq> None
   \<and> err_indicator (snd (hello_world self args s)) = err_indicator s
   \<and> fst (import_and_call ''hello_world'' xs s) \<noteq> None
   \<and> err_indicator (snd (import_and_call ''hello_world'' xs s)) = err_indicator s
   \<and> import_and_call_kw ''hello_world'' xs (k # ks) s
       = (None, s\<lparr>err_indicator :=
                      Some (TypeError, ''hello_world() takes no keyword arguments'')\<rparr>)"
  by (simp add: hello_world_eq import_and_call_eq import_and_call_kw_eq)

text \<open>
  C5. The result does not depend on the parameters: any two choices of \<^verbatim>\<open>self\<close> and
  \<^verbatim>\<open>args\<close> give the same result and the same state, and for an argument tuple of any
  length and content the result is the string \<^verbatim>\<open>"hello, world!"\<close>.
\<close>

theorem hello_world_ignores_parameters:
  "hello_world self args s = hello_world self' args' s
   \<and> fst (hello_world self (Some (PyTuple xs)) s) = Some (py_str ''hello, world!'')"
  by (simp add: hello_world_eq)

text \<open>
  C6, as stated: the entry point takes zero arguments. It takes more: the entry is
  not registered \<^verbatim>\<open>METH_NOARGS\<close>, and the call \<^verbatim>\<open>iterfun.hello_world(None, 2)\<close> with
  two arguments returns the greeting.
\<close>

theorem entry_point_takes_arguments:
  "convention (module_functions ! 0) \<noteq> METH_NOARGS
   \<and> import_and_call ''hello_world'' [Py_None, PyLong 2] \<lparr>err_indicator = None\<rparr>
       = (Some (py_str ''hello, world!''), \<lparr>err_indicator = None\<rparr>)"
  by (simp add: import_and_call_eq module_functions_def convention_def call_flags_def
      METH_VARARGS_def METH_KEYWORDS_def METH_NOARGS_def METH_O_def METH_FASTCALL_def
      METH_METHOD_def)

text \<open>
  C6, amended: the module defines exactly one function, under the name
  \<^verbatim>\<open>hello_world\<close>: the method table has that one entry before its sentinel, and the
  module object made by initialisation has that one function name set from it. The
  entry is registered \<^verbatim>\<open>METH_VARARGS\<close>, so the function takes any number of positional
  arguments, zero included, and returns a text value.
\<close>

theorem sole_entry_point_variadic:
  "map_option function_names (fst (PyInit_iterfun s)) = Some [''hello_world'']
   \<and> map (\<lambda>d. (ml_name d, convention d)) module_functions
       = [(Some ''hello_world'', METH_VARARGS), (None, 0)]
   \<and> import_and_call ''hello_world'' xs s
       = (Some (PyUnicode (map of_char ''hello, world!'')), s)"
  by (simp add: PyInit_iterfun_eq import_and_call_eq py_str_def module_functions_def
      convention_def call_flags_def METH_VARARGS_def METH_KEYWORDS_def METH_NOARGS_def
      METH_O_def METH_FASTCALL_def METH_METHOD_def)

text \<open>
  C7. The component keeps no state: a call of \<^verbatim>\<open>hello_world\<close> returns the state it
  was given, its result is the same from every state, and no sequence of calls, entered
  directly or through the host, moves the interpreter out of the state it is in.
\<close>

theorem hello_world_stateless:
  "snd (hello_world self args s) = s
   \<and> fst (hello_world self args s) = fst (hello_world self args s')
   \<and> snd (call_seq cs s) = s
   \<and> snd (import_and_call ''hello_world'' xs s) = s"
  by (simp add: hello_world_eq call_seq_eq import_and_call_eq)

text \<open>
  C9. \<^verbatim>\<open>PyInit_iterfun\<close> creates a module named \<^verbatim>\<open>iterfun\<close>. Its method table is one
  entry (name \<^verbatim>\<open>hello_world\<close>, the function \<^verbatim>\<open>hello_world\<close>, flags \<^verbatim>\<open>METH_VARARGS\<close>,
  docstring \<^verbatim>\<open>print hello world\<close>) followed by the all-\<^verbatim>\<open>NULL\<close> sentinel, and the module
  created registers exactly that one entry.
\<close>

theorem PyInit_iterfun_registers_hello_world:
  "m_name iterfun_module = ''iterfun''
   \<and> m_methods iterfun_module = Some module_functions
   \<and> module_functions =
       [\<lparr>ml_name = Some ''hello_world'', ml_meth = Some hello_world_ptr,
         ml_flags = METH_VARARGS, ml_doc = Some ''print hello world''\<rparr>,
        \<lparr>ml_name = None, ml_meth = None, ml_flags = 0, ml_doc = None\<rparr>]
   \<and> PyInit_iterfun s =
       (Some (PyModule
          \<lparr>md_name = ''iterfun'', md_doc = None,
           md_dict = [(''hello_world'',
             \<lparr>ml_name = Some ''hello_world'', ml_meth = Some hello_world_ptr,
              ml_flags = METH_VARARGS, ml_doc = Some ''print hello world''\<rparr>)]\<rparr>), s)"
  by (simp add: PyInit_iterfun_eq iterfun_module_def module_functions_def)

end
